theory Spec2Isabelle
  imports Complex_Main "HOL-Library.AList"
begin

section \<open>Python values, errors and string primitives\<close>

text \<open>
  The source is Python. Text is a \<open>str\<close>; it is modelled as a \<^typ>\<open>string\<close>, one
  \<^typ>\<open>char\<close> per code point, for texts whose code points are below 256. Exceptions are
  values of \<open>error\<close>, returned on the left of a sum. Python floats are idealised as
  exact reals.
\<close>

datatype error = KeyError | IndexError | TypeError | UnboundLocalError | ValueError | ZeroDivisionError

definition bind_err :: "error + 'a \<Rightarrow> ('a \<Rightarrow> error + 'b) \<Rightarrow> error + 'b" where
  "bind_err r f = (case r of Inl e \<Rightarrow> Inl e | Inr v \<Rightarrow> f v)"

definition newline :: char where
  "newline = CHR 0x0A"

text \<open>\<open>str.isspace\<close> on one code point below 256: TAB..CR, FS..US, space, NEL, NBSP.\<close>

definition isspace :: "char \<Rightarrow> bool" where
  "isspace c = (let n = (of_char c :: nat) in
     (9 \<le> n \<and> n \<le> 13) \<or> (28 \<le> n \<and> n \<le> 32) \<or> n = 133 \<or> n = 160)"

text \<open>\<open>text.split()\<close>: the maximal runs of non-whitespace, in order.\<close>

fun split_ws :: "string \<Rightarrow> string \<Rightarrow> string list" where
  "split_ws [] w = (if w = [] then [] else [w])"
| "split_ws (c # cs) w =
     (if isspace c then (if w = [] then split_ws cs [] else w # split_ws cs [])
      else split_ws cs (w @ [c]))"

definition py_split :: "string \<Rightarrow> string list" where
  "py_split s = split_ws s []"

text \<open>\<open>sep.join(xs)\<close>.\<close>

fun join :: "string \<Rightarrow> string list \<Rightarrow> string" where
  "join sep [] = []"
| "join sep [x] = x"
| "join sep (x # y # ys) = x @ sep @ join sep (y # ys)"

text \<open>\<open>s.strip()\<close> and \<open>s.strip(chars)\<close>.\<close>

definition strip_by :: "(char \<Rightarrow> bool) \<Rightarrow> string \<Rightarrow> string" where
  "strip_by p s = rev (dropWhile p (rev (dropWhile p s)))"

definition strip :: "string \<Rightarrow> string" where
  "strip s = strip_by isspace s"

definition strip_chars :: "string \<Rightarrow> string \<Rightarrow> string" where
  "strip_chars chars s = strip_by (\<lambda>c. List.member chars c) s"

text \<open>\<open>s[a:b]\<close> for \<open>0 \<le> a\<close>, \<open>0 \<le> b\<close>.\<close>

definition substr :: "string \<Rightarrow> nat \<Rightarrow> nat \<Rightarrow> string" where
  "substr s a b = take (b - a) (drop a s)"

text \<open>\<open>s.split(sep)\<close> for a non-empty separator: the pieces between the
  non-overlapping occurrences of \<open>sep\<close>, found left to right.\<close>

fun split_sep :: "string \<Rightarrow> string \<Rightarrow> string \<Rightarrow> nat \<Rightarrow> string list" where
  "split_sep sep [] piece skip = [piece]"
| "split_sep sep (c # cs) piece skip =
     (if skip > 0 then split_sep sep cs piece (skip - 1)
      else if take (length sep) (c # cs) = sep
           then piece # split_sep sep cs [] (length sep - 1)
           else split_sep sep cs (piece @ [c]) 0)"

definition py_split_on :: "string \<Rightarrow> string \<Rightarrow> string list" where
  "py_split_on sep s = split_sep sep s [] 0"

text \<open>\<open>xs[-3:]\<close>.\<close>

definition last3 :: "'a list \<Rightarrow> 'a list" where
  "last3 xs = drop (length xs - 3) xs"

section \<open>The regular expressions of the source, and how \<open>re\<close> matches them\<close>

text \<open>
  The patterns of the source are written out as syntax trees; the matcher is the
  backtracking matcher of Python's \<open>re\<close>: alternatives left to right, \<open>*\<close> greedy,
  \<open>*?\<close> lazy, the leftmost match wins. \<open>x+\<close> is \<open>xx*\<close>, \<open>x?\<close> is \<open>(?:x|)\<close>,
  \<open>x{4}\<close> is \<open>xxxx\<close>. No repeated part of any pattern of the source can match the empty
  string.
\<close>

datatype cclass = Ch char | Rng char char | Digit | Space | AnyChar

fun in_cclass :: "cclass \<Rightarrow> char \<Rightarrow> bool" where
  "in_cclass (Ch a) c = (c = a)"
| "in_cclass (Rng a b) c = ((of_char a :: nat) \<le> of_char c \<and> (of_char c :: nat) \<le> of_char b)"
| "in_cclass Digit c = ((48 :: nat) \<le> of_char c \<and> (of_char c :: nat) \<le> 57)"
| "in_cclass Space c = isspace c"
| "in_cclass AnyChar c = True"

definition in_classes :: "cclass list \<Rightarrow> char \<Rightarrow> bool" where
  "in_classes cs c = list_ex (\<lambda>x. in_cclass x c) cs"

datatype regex =
    Eps
  | Cls "cclass list"
  | NCls "cclass list"
  | Seq regex regex
  | Alt regex regex
  | Star regex
  | LazyStar regex
  | Group nat regex
  | Bol
  | Eol
  | Ahead regex
  | NotBehind "cclass list"

type_synonym caps = "(nat \<times> (nat \<times> nat)) list"

text \<open>The matcher's cursor: the character before it, its offset, the text after it, and
  the spans of the groups closed so far.\<close>

datatype mstate = MState (prev: "char option") (pos: nat) (rest: string) (caps: caps)

type_synonym cont = "mstate \<Rightarrow> mstate option"

primrec star_loop :: "nat \<Rightarrow> bool \<Rightarrow> (cont \<Rightarrow> cont) \<Rightarrow> cont \<Rightarrow> cont" where
  "star_loop 0 greedy body k st = k st"
| "star_loop (Suc n) greedy body k st =
     (if greedy
      then (case body (\<lambda>st'. if pos st < pos st' then star_loop n greedy body k st' else None) st of
              Some r \<Rightarrow> Some r
            | None \<Rightarrow> k st)
      else (case k st of
              Some r \<Rightarrow> Some r
            | None \<Rightarrow> body (\<lambda>st'. if pos st < pos st' then star_loop n greedy body k st' else None) st))"

definition step_char :: "(char \<Rightarrow> bool) \<Rightarrow> cont \<Rightarrow> cont" where
  "step_char p k st =
     (case rest st of
        [] \<Rightarrow> None
      | c # cs \<Rightarrow> if p c then k (MState (Some c) (Suc (pos st)) cs (caps st)) else None)"

primrec rmatch :: "regex \<Rightarrow> cont \<Rightarrow> cont" where
  "rmatch Eps k st = k st"
| "rmatch (Cls cs) k st = step_char (in_classes cs) k st"
| "rmatch (NCls cs) k st = step_char (\<lambda>c. \<not> in_classes cs c) k st"
| "rmatch (Seq a b) k st = rmatch a (rmatch b k) st"
| "rmatch (Alt a b) k st = (case rmatch a k st of Some r \<Rightarrow> Some r | None \<Rightarrow> rmatch b k st)"
| "rmatch (Star a) k st = star_loop (Suc (length (rest st))) True (rmatch a) k st"
| "rmatch (LazyStar a) k st = star_loop (Suc (length (rest st))) False (rmatch a) k st"
| "rmatch (Group i a) k st =
     rmatch a (\<lambda>st'. k (MState (prev st') (pos st') (rest st') ((i, (pos st, pos st')) # caps st'))) st"
| "rmatch Bol k st = (if pos st = 0 then k st else None)"
| "rmatch Eol k st = (if rest st = [] \<or> rest st = [newline] then k st else None)"
| "rmatch (Ahead a) k st = (case rmatch a Some st of None \<Rightarrow> None | Some r \<Rightarrow> k st)"
| "rmatch (NotBehind cs) k st =
     (case prev st of
        None \<Rightarrow> k st
      | Some c \<Rightarrow> if in_classes cs c then None else k st)"

text \<open>A match object: where the match starts and ends in the searched text, its group
  spans, and the text itself (\<open>match.string\<close>).\<close>

datatype match_obj = Match (m_string: string) (m_start: nat) (m_end: nat) (m_caps: caps)

definition match_here :: "regex \<Rightarrow> string \<Rightarrow> char option \<Rightarrow> nat \<Rightarrow> string \<Rightarrow> match_obj option" where
  "match_here r s pv p rst =
     (case rmatch r Some (MState pv p rst []) of
        None \<Rightarrow> None
      | Some st \<Rightarrow> Some (Match s p (pos st) (caps st)))"

primrec search_from :: "regex \<Rightarrow> string \<Rightarrow> char option \<Rightarrow> nat \<Rightarrow> string \<Rightarrow> match_obj option" where
  "search_from r s pv p [] = match_here r s pv p []"
| "search_from r s pv p (c # cs) =
     (case match_here r s pv p (c # cs) of
        Some m \<Rightarrow> Some m
      | None \<Rightarrow> search_from r s (Some c) (Suc p) cs)"

text \<open>\<open>re.search(pattern, s)\<close> and \<open>re.match(pattern, s)\<close>.\<close>

definition re_search :: "regex \<Rightarrow> string \<Rightarrow> match_obj option" where
  "re_search r s = search_from r s None 0 s"

definition re_match :: "regex \<Rightarrow> string \<Rightarrow> match_obj option" where
  "re_match r s = match_here r s None 0 s"

text \<open>\<open>re.finditer(pattern, s)\<close>: the non-overlapping matches, left to right. After a
  match that ends at \<open>e\<close> the scan resumes at \<open>e\<close>; \<open>skip\<close> counts the offsets still
  inside the last match.\<close>

primrec finditer_from :: "regex \<Rightarrow> string \<Rightarrow> nat \<Rightarrow> char option \<Rightarrow> nat \<Rightarrow> string \<Rightarrow> match_obj list" where
  "finditer_from r s skip pv p [] =
     (if skip = 0 then (case match_here r s pv p [] of Some m \<Rightarrow> [m] | None \<Rightarrow> []) else [])"
| "finditer_from r s skip pv p (c # cs) =
     (if skip > 0 then finditer_from r s (skip - 1) (Some c) (Suc p) cs
      else (case match_here r s pv p (c # cs) of
              None \<Rightarrow> finditer_from r s 0 (Some c) (Suc p) cs
            | Some m \<Rightarrow> m # finditer_from r s (m_end m - p - 1) (Some c) (Suc p) cs))"

definition finditer :: "regex \<Rightarrow> string \<Rightarrow> match_obj list" where
  "finditer r s = finditer_from r s 0 None 0 s"

text \<open>\<open>match.group(0)\<close>, \<open>match.group(i + 1)\<close> and \<open>match.groups()\<close>; a group that took
  no part in the match is \<open>None\<close>. \<open>ngroups\<close> is the number of groups of the pattern.\<close>

definition group0 :: "match_obj \<Rightarrow> string" where
  "group0 m = substr (m_string m) (m_start m) (m_end m)"

definition group :: "match_obj \<Rightarrow> nat \<Rightarrow> string option" where
  "group m i = (case map_of (m_caps m) i of
                  None \<Rightarrow> None
                | Some (a, b) \<Rightarrow> Some (substr (m_string m) a b))"

primrec ngroups :: "regex \<Rightarrow> nat" where
  "ngroups Eps = 0"
| "ngroups (Cls cs) = 0"
| "ngroups (NCls cs) = 0"
| "ngroups (Seq a b) = ngroups a + ngroups b"
| "ngroups (Alt a b) = ngroups a + ngroups b"
| "ngroups (Star a) = ngroups a"
| "ngroups (LazyStar a) = ngroups a"
| "ngroups (Group i a) = Suc (ngroups a)"
| "ngroups Bol = 0"
| "ngroups Eol = 0"
| "ngroups (Ahead a) = ngroups a"
| "ngroups (NotBehind cs) = 0"

definition groups :: "regex \<Rightarrow> match_obj \<Rightarrow> string option list" where
  "groups r m = map (group m) [0..<ngroups r]"

text \<open>\<open>re.split(pattern, s)\<close> for a pattern without groups: the pieces of \<open>s\<close> between
  the matches.\<close>

fun split_at :: "string \<Rightarrow> nat \<Rightarrow> match_obj list \<Rightarrow> string list" where
  "split_at s from [] = [drop from s]"
| "split_at s from (m # ms) = substr s from (m_start m) # split_at s (m_end m) ms"

definition re_split :: "regex \<Rightarrow> string \<Rightarrow> string list" where
  "re_split r s = split_at s 0 (finditer r s)"

text \<open>Pattern syntax that is an abbreviation of the above.\<close>

definition seqs :: "regex list \<Rightarrow> regex" where
  "seqs rs = foldr Seq rs Eps"

definition plus :: "regex \<Rightarrow> regex" where
  "plus r = Seq r (Star r)"

definition opt :: "regex \<Rightarrow> regex" where
  "opt r = Alt r Eps"

definition chr :: "char \<Rightarrow> regex" where
  "chr c = Cls [Ch c]"

definition lit :: "string \<Rightarrow> regex" where
  "lit s = seqs (map chr s)"


section \<open>FormatOptimizer\<close>

text \<open>The dict \<open>self.margins\<close> always has the four keys \<open>top\<close>, \<open>right\<close>, \<open>bottom\<close>,
  \<open>left\<close>; it is a record with one field for each.\<close>

record margins =
  top_m :: real
  right_m :: real
  bottom_m :: real
  left_m :: real

record format_optimizer =
  page_width :: real
  page_height :: real
  margins :: margins
  content_width :: real
  content_height :: real
  default_font_size :: real
  default_line_height :: real
  chars_per_line :: int
  lines_per_page :: int

text \<open>\<open>int(x)\<close> on a float: truncation towards zero.\<close>

definition py_int :: "real \<Rightarrow> int" where
  "py_int x = (if 0 \<le> x then \<lfloor>x\<rfloor> else \<lceil>x\<rceil>)"

definition INCH_TO_POINT :: real where
  "INCH_TO_POINT = 72"

definition MM_TO_POINT :: real where
  "MM_TO_POINT = 283465 / 100000"

definition POINT_TO_PIXEL :: real where
  "POINT_TO_PIXEL = 133333 / 100000"

definition calculate_content_area :: "format_optimizer \<Rightarrow> format_optimizer" where
  "calculate_content_area self =
     (let cw = page_width self - (left_m (margins self) + right_m (margins self));
          ch = page_height self - (top_m (margins self) + bottom_m (margins self));
          dfs = 12;
          dlh = dfs * 2;
          avg_char_width = dfs * (6 / 10)
      in self\<lparr>content_width := cw, content_height := ch,
               default_font_size := dfs, default_line_height := dlh,
               chars_per_line := py_int (cw / avg_char_width),
               lines_per_page := py_int (ch / dlh)\<rparr>)"

text \<open>\<open>FormatOptimizer()\<close>: US Letter, one inch of margin on every side. The derived
  fields do not exist before \<open>_calculate_content_area\<close> sets them; the zeros stand for
  that and are all overwritten.\<close>

definition init_optimizer :: format_optimizer where
  "init_optimizer = calculate_content_area
     \<lparr>page_width = 612, page_height = 792,
      margins = \<lparr>top_m = 72, right_m = 72, bottom_m = 72, left_m = 72\<rparr>,
      content_width = 0, content_height = 0, default_font_size = 0,
      default_line_height = 0, chars_per_line = 0, lines_per_page = 0\<rparr>"

definition set_page_size :: "format_optimizer \<Rightarrow> real \<Rightarrow> real \<Rightarrow> string \<Rightarrow> format_optimizer" where
  "set_page_size self width height unit =
     (let (w, h) =
        (if unit = ''inch'' then (width * INCH_TO_POINT, height * INCH_TO_POINT)
         else if unit = ''mm'' then (width * MM_TO_POINT, height * MM_TO_POINT)
         else if unit = ''pixel'' then (width / POINT_TO_PIXEL, height / POINT_TO_PIXEL)
         else (width, height))
      in calculate_content_area (self\<lparr>page_width := w, page_height := h\<rparr>))"

text \<open>The \<open>convert\<close> lambda of \<open>set_margins\<close>, called on a value that is not \<open>None\<close>: a
  unit that is not a key of its dict raises \<open>KeyError\<close>.\<close>

definition convert :: "real \<Rightarrow> string \<Rightarrow> error + real" where
  "convert val unit =
     (if unit = ''inch'' then Inr (val * INCH_TO_POINT)
      else if unit = ''mm'' then Inr (val * MM_TO_POINT)
      else if unit = ''pixel'' then Inr (val / POINT_TO_PIXEL)
      else if unit = ''point'' then Inr val
      else Inl KeyError)"

definition set_side :: "real option \<Rightarrow> string \<Rightarrow> (real \<Rightarrow> margins \<Rightarrow> margins) \<Rightarrow> margins \<Rightarrow> error + margins" where
  "set_side val unit upd m =
     (case val of
        None \<Rightarrow> Inr m
      | Some v \<Rightarrow> bind_err (convert v unit) (\<lambda>v'. Inr (upd v' m)))"

definition set_margins ::
  "format_optimizer \<Rightarrow> real option \<Rightarrow> real option \<Rightarrow> real option \<Rightarrow> real option \<Rightarrow> string \<Rightarrow> error + format_optimizer" where
  "set_margins self top_v right_v bottom_v left_v unit =
     bind_err (set_side top_v unit (\<lambda>v m. m\<lparr>top_m := v\<rparr>) (margins self)) (\<lambda>m1.
     bind_err (set_side right_v unit (\<lambda>v m. m\<lparr>right_m := v\<rparr>) m1) (\<lambda>m2.
     bind_err (set_side bottom_v unit (\<lambda>v m. m\<lparr>bottom_m := v\<rparr>) m2) (\<lambda>m3.
     bind_err (set_side left_v unit (\<lambda>v m. m\<lparr>left_m := v\<rparr>) m3) (\<lambda>m4.
     Inr (calculate_content_area (self\<lparr>margins := m4\<rparr>))))))"

text \<open>\<open>solve(Eq(page_width - 2*x, content_width_needed), x)[0]\<close>: the one root of the
  linear equation.\<close>

definition solve_margin :: "real \<Rightarrow> real \<Rightarrow> real" where
  "solve_margin pw content_width_needed = (pw - content_width_needed) / 2"

text \<open>Returns \<open>self.margins\<close> and the updated optimizer.\<close>

definition calculate_optimal_margins :: "format_optimizer \<Rightarrow> int \<Rightarrow> error + (margins \<times> format_optimizer)" where
  "calculate_optimal_margins self target_line_length =
     (let avg_char_width = default_font_size self * (6 / 10);
          content_width_needed = of_int target_line_length * avg_char_width;
          solution = solve_margin (page_width self) content_width_needed
      in bind_err (set_margins self None (Some solution) None (Some solution) ''point'')
           (\<lambda>self'. Inr (margins self', self')))"

text \<open>The loop of \<open>calculate_line_breaks\<close> over the words, on \<open>lines\<close>, \<open>current_line\<close>
  and \<open>current_length\<close>.\<close>

fun line_loop :: "int \<Rightarrow> string list \<Rightarrow> string list \<Rightarrow> string list \<Rightarrow> int \<Rightarrow> string list \<times> string list \<times> int" where
  "line_loop cpl [] lines current_line current_length = (lines, current_line, current_length)"
| "line_loop cpl (word # ws) lines current_line current_length =
     (if current_length + int (length word) + (if current_length > 0 then 1 else 0) > cpl
      then line_loop cpl ws (lines @ [join '' '' current_line]) [word] (int (length word))
      else line_loop cpl ws lines (current_line @ [word])
             (current_length + int (length word) + (if current_length > 0 then 1 else 0)))"

definition break_lines :: "int \<Rightarrow> string \<Rightarrow> string list" where
  "break_lines cpl text =
     (case line_loop cpl (py_split text) [] [] 0 of
        (lines, current_line, current_length) \<Rightarrow>
          if current_line \<noteq> [] then lines @ [join '' '' current_line] else lines)"

text \<open>The line breaker as the specification words it: a word joins the current line
  while the length of that line, plus the word, plus one when the line is not empty,
  is at most \<open>cpl\<close>; otherwise the line is flushed and the word starts the next one.\<close>

fun greedy_wrap :: "int \<Rightarrow> string list \<Rightarrow> string list \<Rightarrow> string list \<Rightarrow> string list" where
  "greedy_wrap cpl [] lines current = (if current \<noteq> [] then lines @ [join '' '' current] else lines)"
| "greedy_wrap cpl (word # ws) lines current =
     (if int (length (join '' '' current)) + int (length word) + (if current \<noteq> [] then 1 else 0) \<le> cpl
      then greedy_wrap cpl ws lines (current @ [word])
      else greedy_wrap cpl ws (lines @ [join '' '' current]) [word])"

definition calculate_line_breaks :: "format_optimizer \<Rightarrow> string \<Rightarrow> real option \<Rightarrow> error + string list" where
  "calculate_line_breaks self text font_size =
     (let fs = (case font_size of None \<Rightarrow> default_font_size self | Some f \<Rightarrow> f);
          avg_char_width = fs * (6 / 10)
      in if avg_char_width = 0 then Inl ZeroDivisionError
         else Inr (break_lines (py_int (content_width self / avg_char_width)) text))"

text \<open>\<open>int(np.ceil(line_count / self.lines_per_page))\<close>.\<close>

definition calculate_pagination :: "format_optimizer \<Rightarrow> int \<Rightarrow> error + int" where
  "calculate_pagination self line_count =
     (if lines_per_page self = 0 then Inl ZeroDivisionError
      else Inr \<lceil>(of_int line_count :: real) / of_int (lines_per_page self)\<rceil>)"

text \<open>The inner loop of \<open>optimize_heading_placement\<close> over the page breaks: the first break
  the heading is one or two lines after moves it, and ends the loop.\<close>

fun adjust_heading :: "int \<Rightarrow> int \<Rightarrow> int \<Rightarrow> int list \<Rightarrow> int \<times> int" where
  "adjust_heading lpp heading_pos page_num [] = (heading_pos, page_num)"
| "adjust_heading lpp heading_pos page_num (break_pos # bs) =
     (if 0 < heading_pos - break_pos \<and> heading_pos - break_pos < 3
      then (break_pos - 1, (break_pos - 1) div lpp + 1)
      else adjust_heading lpp heading_pos page_num bs)"

definition place_heading :: "int \<Rightarrow> int list \<Rightarrow> int \<Rightarrow> (string \<times> int) list" where
  "place_heading lpp page_breaks heading_pos =
     (case adjust_heading lpp heading_pos (heading_pos div lpp + 1) page_breaks of
        (p, n) \<Rightarrow> [(''position'', p), (''page'', n)])"

definition optimize_heading_placement ::
  "format_optimizer \<Rightarrow> int list \<Rightarrow> int \<Rightarrow> error + (string \<times> int) list list" where
  "optimize_heading_placement self headings_positions text_length =
     bind_err (calculate_pagination self text_length) (\<lambda>n.
       let page_breaks = map (\<lambda>i. i * lines_per_page self) [1..n - 1]
       in Inr (map (place_heading (lines_per_page self) page_breaks) headings_positions))"


section \<open>CitationProcessor\<close>

subsection \<open>The pattern catalogue\<close>

definition sp :: regex where
  "sp = Cls [Space]"

definition digit :: regex where
  "digit = Cls [Digit]"

definition upper :: regex where
  "upper = Cls [Rng CHR ''A'' CHR ''Z'']"

definition lower :: regex where
  "lower = Cls [Rng CHR ''a'' CHR ''z'']"

text \<open>\<open>[A-Z][a-z]+(?:[-\s][A-Z][a-z]+)*\<close>\<close>

definition author_name :: regex where
  "author_name = seqs [upper, plus lower,
     Star (seqs [Cls [Ch CHR ''-'', Space], upper, plus lower])]"

text \<open>\<open>(?:\s+and\s+[A-Z][a-z]+)?\<close> and \<open>(?:\s+et\s+al\.?)?\<close>\<close>

definition and_author :: regex where
  "and_author = opt (seqs [plus sp, lit ''and'', plus sp, upper, plus lower])"

definition et_al :: regex where
  "et_al = opt (seqs [plus sp, lit ''et'', plus sp, lit ''al'', opt (chr CHR ''.'')])"

text \<open>\<open>(?:-\d+)?\<close> and \<open>\d{4}\<close>\<close>

definition page_range :: regex where
  "page_range = opt (seqs [chr CHR ''-'', plus digit])"

definition year4 :: regex where
  "year4 = seqs [digit, digit, digit, digit]"

text \<open>\<open>\(([A-Z][a-z]+(?:[-\s][A-Z][a-z]+)*)(?:\s+and\s+[A-Z][a-z]+)?(?:\s+et\s+al\.?)?\s+(\d+)(?:-\d+)?\)\<close>,
  the value of both \<open>'in_text'\<close> and \<open>'parenthetical'\<close> under \<open>'mla'\<close>.\<close>

definition mla_pattern :: regex where
  "mla_pattern = seqs [chr CHR ''('', Group 0 author_name, and_author, et_al, plus sp,
     Group 1 (plus digit), page_range, chr CHR '')'']"

text \<open>\<open>([A-Z][a-z]+(?:[-\s][A-Z][a-z]+)*)(?:\s+and\s+[A-Z][a-z]+)?(?:\s+et\s+al\.?)?\s+\((\d{4})(?:,\s+p\.?\s+\d+(?:-\d+)?)?\)\<close>\<close>

definition apa_in_text :: regex where
  "apa_in_text = seqs [Group 0 author_name, and_author, et_al, plus sp, chr CHR ''('',
     Group 1 year4,
     opt (seqs [chr CHR '','', plus sp, chr CHR ''p'', opt (chr CHR ''.''), plus sp, plus digit, page_range]),
     chr CHR '')'']"

text \<open>\<open>\(([A-Z][a-z]+(?:[-\s][A-Z][a-z]+)*)(?:\s+and\s+[A-Z][a-z]+)?(?:\s+et\s+al\.?)?,\s+(\d{4})(?:,\s+p\.?\s+\d+(?:-\d+)?)?\)\<close>\<close>

definition apa_parenthetical :: regex where
  "apa_parenthetical = seqs [chr CHR ''('', Group 0 author_name, and_author, et_al,
     chr CHR '','', plus sp, Group 1 year4,
     opt (seqs [chr CHR '','', plus sp, chr CHR ''p'', opt (chr CHR ''.''), plus sp, plus digit, page_range]),
     chr CHR '')'']"

text \<open>\<open>([A-Z][a-z]+(?:[-\s][A-Z][a-z]+)*)(?:\s+and\s+[A-Z][a-z]+)?(?:\s+et\s+al\.?)?\s+\((\d{4})(?:,\s+\d+(?:-\d+)?)?\)\<close>\<close>

definition chicago_in_text :: regex where
  "chicago_in_text = seqs [Group 0 author_name, and_author, et_al, plus sp, chr CHR ''('',
     Group 1 year4,
     opt (seqs [chr CHR '','', plus sp, plus digit, page_range]),
     chr CHR '')'']"

text \<open>\<open>(?<!\d)(\d+)\.?\s+([A-Z][a-z]+(?:[-\s][A-Z][a-z]+)*),\s+[^,]+,\s+(\d+)(?:-\d+)?\<close>\<close>

definition chicago_footnote :: regex where
  "chicago_footnote = seqs [NotBehind [Digit], Group 0 (plus digit), opt (chr CHR ''.''), plus sp,
     Group 1 author_name, chr CHR '','', plus sp, plus (NCls [Ch CHR '','']), chr CHR '','',
     plus sp, Group 2 (plus digit), page_range]"

text \<open>\<open>self.citation_patterns\<close>, in the order of the dict literal.\<close>

definition citation_patterns :: "(string \<times> (string \<times> regex) list) list" where
  "citation_patterns =
     [(''mla'', [(''in_text'', mla_pattern), (''parenthetical'', mla_pattern)]),
      (''apa'', [(''in_text'', apa_in_text), (''parenthetical'', apa_parenthetical)]),
      (''chicago'', [(''in_text'', chicago_in_text), (''footnote'', chicago_footnote)])]"

subsection \<open>extract_citations\<close>

text \<open>A value stored in a citation dict: a \<open>str\<close>, or the tuple \<open>match.groups()\<close>.\<close>

datatype pyval = Str string | Groups "string option list"

type_synonym citation = "(string \<times> pyval) list"

text \<open>The dict literal built for one match.\<close>

definition make_citation :: "regex \<Rightarrow> string \<Rightarrow> string \<Rightarrow> match_obj \<Rightarrow> citation" where
  "make_citation pattern type_name sentence m =
     [(''text'', Str (group0 m)),
      (''type'', Str type_name),
      (''sentence'', Str sentence),
      (''groups'', Groups (groups pattern m))]"

text \<open>\<open>style_counts\<close> and \<open>citations\<close>, the two dicts the loops update. Their keys are
  the keys of \<open>citation_patterns\<close>, so no update misses its key.\<close>

type_synonym extract_state = "(string \<times> int) list \<times> (string \<times> citation list) list"

definition record_match :: "string \<Rightarrow> string \<Rightarrow> regex \<Rightarrow> string \<Rightarrow> extract_state \<Rightarrow> match_obj \<Rightarrow> extract_state" where
  "record_match style type_name pattern sentence st m =
     (AList.map_entry style (\<lambda>n. n + 1) (fst st),
      AList.map_entry style (\<lambda>cs. cs @ [make_citation pattern type_name sentence m]) (snd st))"

definition scan_pattern :: "string \<Rightarrow> string \<Rightarrow> extract_state \<Rightarrow> string \<times> regex \<Rightarrow> extract_state" where
  "scan_pattern sentence style st tp =
     foldl (record_match style (fst tp) (snd tp) sentence) st (finditer (snd tp) sentence)"

definition scan_style :: "string \<Rightarrow> extract_state \<Rightarrow> string \<times> (string \<times> regex) list \<Rightarrow> extract_state" where
  "scan_style sentence st sk = foldl (scan_pattern sentence (fst sk)) st (snd sk)"

definition scan_sentence :: "extract_state \<Rightarrow> string \<Rightarrow> extract_state" where
  "scan_sentence st sentence = foldl (scan_style sentence) st citation_patterns"

text \<open>\<open>max(style_counts, key=style_counts.get)\<close>: the first key, in the dict's order,
  whose count no other key's count exceeds; \<open>ValueError\<close> on an empty dict. Then
  \<open>None\<close> when that count is zero.\<close>

fun max_by :: "('a \<Rightarrow> int) \<Rightarrow> 'a \<Rightarrow> 'a list \<Rightarrow> 'a" where
  "max_by f best [] = best"
| "max_by f best (x # xs) = max_by f (if f best < f x then x else best) xs"

definition dominant_style_of :: "(string \<times> int) list \<Rightarrow> error + string option" where
  "dominant_style_of style_counts =
     (case style_counts of
        [] \<Rightarrow> Inl ValueError
      | kv # kvs \<Rightarrow>
          (let best = max_by snd kv kvs
           in Inr (if snd best = 0 then None else Some (fst best))))"

record extraction =
  dominant_style :: "string option"
  citations :: "(string \<times> citation list) list"
  style_counts :: "(string \<times> int) list"

text \<open>\<open>sent_tokenize\<close> is NLTK's sentence splitter, a parameter here.\<close>

definition extract_citations :: "(string \<Rightarrow> string list) \<Rightarrow> string \<Rightarrow> error + extraction" where
  "extract_citations sent_tokenize text =
     (let sentences = sent_tokenize text;
          st = foldl scan_sentence
                 ([(''mla'', 0), (''apa'', 0), (''chicago'', 0)],
                  [(''mla'', []), (''apa'', []), (''chicago'', [])]) sentences
      in bind_err (dominant_style_of (fst st)) (\<lambda>d.
           Inr \<lparr>dominant_style = d, citations = snd st, style_counts = fst st\<rparr>))"

subsection \<open>convert_citation\<close>

definition getitem :: "(string \<times> 'v) list \<Rightarrow> string \<Rightarrow> error + 'v" where
  "getitem d k = (case map_of d k of None \<Rightarrow> Inl KeyError | Some v \<Rightarrow> Inr v)"

text \<open>\<open>v[i]\<close> for \<open>i \<ge> 0\<close>: an element of the tuple, or a one-character \<open>str\<close>.\<close>

definition index :: "pyval \<Rightarrow> nat \<Rightarrow> error + string option" where
  "index v i =
     (case v of
        Groups gs \<Rightarrow> if i < length gs then Inr (gs ! i) else Inl IndexError
      | Str s \<Rightarrow> if i < length s then Inr (Some [s ! i]) else Inl IndexError)"

text \<open>\<open>re.search(pattern, v)\<close> and then \<open>m.group(1) if m else None\<close>.\<close>

definition search_group1 :: "regex \<Rightarrow> pyval \<Rightarrow> error + string option" where
  "search_group1 pattern v =
     (case v of
        Groups gs \<Rightarrow> Inl TypeError
      | Str s \<Rightarrow> Inr (case re_search pattern s of None \<Rightarrow> None | Some m \<Rightarrow> group m 0))"

text \<open>\<open>p\.?\s+(\d+(?:-\d+)?)\<close> and \<open>(\d+(?:-\d+)?)\<close>\<close>

definition apa_page_pattern :: regex where
  "apa_page_pattern = seqs [chr CHR ''p'', opt (chr CHR ''.''), plus sp,
     Group 0 (seqs [plus digit, page_range])]"

definition chicago_page_pattern :: regex where
  "chicago_page_pattern = Group 0 (seqs [plus digit, page_range])"

text \<open>How a value that is a \<open>str\<close> or \<open>None\<close> prints in an f-string, and its truth
  value.\<close>

definition fstr :: "string option \<Rightarrow> string" where
  "fstr v = (case v of None \<Rightarrow> ''None'' | Some s \<Rightarrow> s)"

definition truthy :: "string option \<Rightarrow> bool" where
  "truthy v = (case v of None \<Rightarrow> False | Some s \<Rightarrow> s \<noteq> [])"

text \<open>The first half of \<open>convert_citation\<close>: the locals \<open>author\<close>, \<open>year\<close>, \<open>page\<close>.
  They are bound together or not at all: \<open>None\<close> when no branch ran.\<close>

type_synonym locals = "(string option \<times> string option \<times> string option) option"

definition extract_fields :: "citation \<Rightarrow> string \<Rightarrow> error + locals" where
  "extract_fields citation from_style =
     (if from_style = ''mla'' then
        bind_err (getitem citation ''groups'') (\<lambda>g0. bind_err (index g0 0) (\<lambda>author.
        bind_err (getitem citation ''groups'') (\<lambda>g1. bind_err (index g1 1) (\<lambda>page.
        Inr (Some (author, Some ''n.d.'', page))))))
      else if from_style = ''apa'' then
        bind_err (getitem citation ''groups'') (\<lambda>g0. bind_err (index g0 0) (\<lambda>author.
        bind_err (getitem citation ''groups'') (\<lambda>g1. bind_err (index g1 1) (\<lambda>year.
        bind_err (getitem citation ''text'') (\<lambda>t. bind_err (search_group1 apa_page_pattern t) (\<lambda>page.
        Inr (Some (author, year, page))))))))
      else if from_style = ''chicago'' then
        bind_err (getitem citation ''type'') (\<lambda>ty.
        if ty = Str ''in_text'' then
          bind_err (getitem citation ''groups'') (\<lambda>g0. bind_err (index g0 0) (\<lambda>author.
          bind_err (getitem citation ''groups'') (\<lambda>g1. bind_err (index g1 1) (\<lambda>year.
          bind_err (getitem citation ''text'') (\<lambda>t. bind_err (search_group1 chicago_page_pattern t) (\<lambda>page.
          Inr (Some (author, year, page))))))))
        else
          bind_err (getitem citation ''groups'') (\<lambda>g0. bind_err (index g0 0) (\<lambda>footnote_num.
          bind_err (getitem citation ''groups'') (\<lambda>g1. bind_err (index g1 1) (\<lambda>author.
          bind_err (getitem citation ''groups'') (\<lambda>g2. bind_err (index g2 2) (\<lambda>page.
          Inr (Some (author, Some ''n.d.'', page)))))))))
      else Inr None)"

text \<open>The second half: a local that was never bound raises \<open>UnboundLocalError\<close> where it
  is first read.\<close>

definition render :: "citation \<Rightarrow> string \<Rightarrow> locals \<Rightarrow> error + pyval" where
  "render citation to_style vars =
     (if to_style = ''mla'' then
        (case vars of
           None \<Rightarrow> Inl UnboundLocalError
         | Some (author, year, page) \<Rightarrow>
             if truthy page then Inr (Str (''('' @ fstr author @ '' '' @ fstr page @ '')''))
             else Inr (Str (''('' @ fstr author @ '')'')))
      else if to_style = ''apa'' then
        (case vars of
           None \<Rightarrow> Inl UnboundLocalError
         | Some (author, year, page) \<Rightarrow>
             if truthy page
             then Inr (Str (''('' @ fstr author @ '', '' @ fstr year @ '', p. '' @ fstr page @ '')''))
             else Inr (Str (''('' @ fstr author @ '', '' @ fstr year @ '')'')))
      else if to_style = ''chicago'' then
        bind_err (getitem citation ''type'') (\<lambda>ty.
        if ty = Str ''in_text'' then
          (case vars of
             None \<Rightarrow> Inl UnboundLocalError
           | Some (author, year, page) \<Rightarrow>
               if truthy page
               then Inr (Str (fstr author @ '' ('' @ fstr year @ '', '' @ fstr page @ '')''))
               else Inr (Str (fstr author @ '' ('' @ fstr year @ '')'')))
        else Inr (Str ''[Citation converted to Chicago footnote]''))
      else getitem citation ''text'')"

definition convert_citation :: "citation \<Rightarrow> string \<Rightarrow> string \<Rightarrow> error + pyval" where
  "convert_citation citation from_style to_style =
     bind_err (extract_fields citation from_style) (render citation to_style)"

subsection \<open>identify_bibliography\<close>

definition bib_titles :: "string list" where
  "bib_titles = [''Works Cited'', ''References'', ''Bibliography'', ''Literature Cited'', ''Sources'']"

text \<open>\<open>(?:^|\n)\s*{title}\s*(?:\n|$)(.*?)(?:$|\n\s*(?:[A-Z][a-zA-Z\s]+:|\[))\<close> under
  \<open>re.DOTALL\<close>.\<close>

definition bib_section_pattern :: "string \<Rightarrow> regex" where
  "bib_section_pattern title =
     seqs [Alt Bol (chr newline), Star sp, lit title, Star sp, Alt (chr newline) Eol,
           Group 0 (LazyStar (Cls [AnyChar])),
           Alt Eol (seqs [chr newline, Star sp,
                          Alt (seqs [upper,
                                     plus (Cls [Rng CHR ''a'' CHR ''z'', Rng CHR ''A'' CHR ''Z'', Space]),
                                     chr CHR '':''])
                              (chr CHR ''['')])]"

text \<open>The loop over the titles: the first title whose pattern is found gives
  \<open>match.group(1).strip()\<close>. Group 1 takes part in every match of the pattern.\<close>

fun find_bib_section :: "string list \<Rightarrow> string \<Rightarrow> string option" where
  "find_bib_section [] text = None"
| "find_bib_section (title # ts) text =
     (case re_search (bib_section_pattern title) text of
        Some m \<Rightarrow> (case group m 0 of Some g \<Rightarrow> Some (strip g) | None \<Rightarrow> None)
      | None \<Rightarrow> find_bib_section ts text)"

text \<open>\<open>(?:^|\n)([A-Z][a-z]+(?:[-\s][A-Z][a-z]+)*),\s+[A-Z]\<close>\<close>

definition tail_citation_pattern :: regex where
  "tail_citation_pattern = seqs [Alt Bol (chr newline), Group 0 author_name, chr CHR '','', plus sp, upper]"

text \<open>The second attempt: the last three paragraphs, when there are more than three and
  they hold an author-led line.\<close>

definition find_bib_tail :: "string \<Rightarrow> string option" where
  "find_bib_tail text =
     (let paragraphs = py_split_on [newline, newline] text
      in if length paragraphs > 3
         then (let last_paras = join [newline, newline] (last3 paragraphs)
               in if re_search tail_citation_pattern last_paras \<noteq> None then Some last_paras else None)
         else None)"

text \<open>\<open>not bib_section\<close>: \<open>None\<close> or the empty string.\<close>

definition falsy :: "string option \<Rightarrow> bool" where
  "falsy v = (\<not> truthy v)"

definition locate_bibliography :: "string \<Rightarrow> string option" where
  "locate_bibliography text =
     (let bib_section = find_bib_section bib_titles text
      in if falsy bib_section then find_bib_tail text else bib_section)"

text \<open>\<open>\n(?=[A-Z])\<close>, \<open>^([A-Z][a-z]+(?:[-\s][A-Z][a-z]+)*)\<close>, \<open>(\d{4})\<close> and
  \<open>"([^"]+)"\<close>\<close>

definition entry_split_pattern :: regex where
  "entry_split_pattern = seqs [chr newline, Ahead upper]"

definition entry_author_pattern :: regex where
  "entry_author_pattern = seqs [Bol, Group 0 author_name]"

definition entry_year_pattern :: regex where
  "entry_year_pattern = Group 0 year4"

definition entry_title_pattern :: regex where
  "entry_title_pattern = seqs [chr CHR 0x22, Group 0 (plus (NCls [Ch CHR 0x22])), chr CHR 0x22]"

type_synonym bib_entry = "(string \<times> string option) list"

text \<open>The body of the loop over the entries, for a stripped, non-empty \<open>entry_text\<close>.\<close>

definition parse_entry :: "string \<Rightarrow> bib_entry" where
  "parse_entry entry_text =
     (let author_match = re_match entry_author_pattern entry_text;
          entry1 = (case author_match of None \<Rightarrow> [] | Some m \<Rightarrow> [(''author'', group m 0)]);
          year_match = re_search entry_year_pattern entry_text;
          entry2 = (case year_match of None \<Rightarrow> entry1 | Some m \<Rightarrow> entry1 @ [(''year'', group m 0)]);
          title_match = re_search entry_title_pattern entry_text;
          entry3 =
            (case title_match of
               Some m \<Rightarrow> entry2 @ [(''title'', group m 0)]
             | None \<Rightarrow>
                 (case (author_match, year_match) of
                    (Some am, Some ym) \<Rightarrow>
                      if m_start ym > m_end am
                      then (let potential_title = strip (substr entry_text (m_end am) (m_start ym))
                            in if potential_title \<noteq> []
                               then entry2 @ [(''title'', Some (strip_chars ''., '' potential_title))]
                               else entry2)
                      else entry2
                  | _ \<Rightarrow> entry2))
      in entry3 @ [(''raw'', Some entry_text)])"

definition identify_bibliography :: "string \<Rightarrow> bib_entry list" where
  "identify_bibliography text =
     (case locate_bibliography text of
        None \<Rightarrow> []
      | Some bib_section \<Rightarrow>
          if bib_section = [] then []
          else map parse_entry
                 (filter (\<lambda>entry_text. entry_text \<noteq> [])
                    (map strip (re_split entry_split_pattern bib_section))))"


section \<open>Closed forms and example inputs\<close>

text \<open>What one pattern adds to \<open>citations[style]\<close> for one sentence: one dict for each
  match, in the order of the matches.\<close>

definition found :: "regex \<Rightarrow> string \<Rightarrow> string \<Rightarrow> citation list" where
  "found p ty s = map (make_citation p ty s) (finditer p s)"

text \<open>A sentence splitter for the examples: the whole text is one sentence.\<close>

definition one_sentence :: "string \<Rightarrow> string list" where
  "one_sentence text = [text]"

section \<open>Helper lemmas\<close>

lemma margins_calculate_content_area:
  "margins (calculate_content_area self) = margins self"
  by (simp add: calculate_content_area_def Let_def)

lemma render_unknown_target:
  "to_style \<noteq> ''mla'' \<Longrightarrow> to_style \<noteq> ''apa'' \<Longrightarrow> to_style \<noteq> ''chicago'' \<Longrightarrow>
   render citation to_style vars = getitem citation ''text''"
  by (simp add: render_def)

lemma join_snoc:
  "join sep (xs @ [w]) = (if xs = [] then w else join sep xs @ sep @ w)"
  by (induction sep xs rule: join.induct) auto

lemma split_ws_nonempty:
  "w \<in> set (split_ws s acc) \<Longrightarrow> w \<noteq> []"
  by (induction s arbitrary: acc) (auto split: if_splits)

lemma py_split_nonempty:
  "w \<in> set (py_split s) \<Longrightarrow> w \<noteq> []"
  unfolding py_split_def by (rule split_ws_nonempty)

lemma line_loop_greedy_wrap:
  assumes "\<And>w. w \<in> set ws \<Longrightarrow> w \<noteq> []"
    and "len = int (length (join '' '' cur))"
    and "cur \<noteq> [] \<Longrightarrow> 0 < len"
  shows "(case line_loop cpl ws lines cur len of
            (l, c, n) \<Rightarrow> if c \<noteq> [] then l @ [join '' '' c] else l)
         = greedy_wrap cpl ws lines cur"
  using assms
proof (induction ws arbitrary: lines cur len)
  case Nil
  then show ?case by simp
next
  case (Cons w ws)
  have w: "w \<noteq> []" using Cons.prems(1) by simp
  have pos: "0 < len \<longleftrightarrow> cur \<noteq> []"
    using Cons.prems(2,3) by (cases cur) auto
  show ?case
  proof (cases "len + int (length w) + (if 0 < len then 1 else 0) > cpl")
    case True
    have "(case line_loop cpl ws (lines @ [join '' '' cur]) [w] (int (length w)) of
            (l, c, n) \<Rightarrow> if c \<noteq> [] then l @ [join '' '' c] else l)
          = greedy_wrap cpl ws (lines @ [join '' '' cur]) [w]"
      using Cons.prems(1) w by (intro Cons.IH) auto
    then show ?thesis using True pos Cons.prems(2) by auto
  next
    case False
    have "(case line_loop cpl ws lines (cur @ [w]) (len + int (length w) + (if 0 < len then 1 else 0)) of
            (l, c, n) \<Rightarrow> if c \<noteq> [] then l @ [join '' '' c] else l)
          = greedy_wrap cpl ws lines (cur @ [w])"
      using Cons.prems w pos by (intro Cons.IH) (auto simp: join_snoc)
    then show ?thesis using False pos Cons.prems(2) by auto
  qed
qed

lemma break_lines_greedy_wrap:
  "break_lines cpl text = greedy_wrap cpl (py_split text) [] []"
  unfolding break_lines_def
  by (rule line_loop_greedy_wrap) (auto dest: py_split_nonempty)

lemma join_length_ge:
  "w \<in> set xs \<Longrightarrow> length w \<le> length (join sep xs)"
  by (induction sep xs rule: join.induct) auto

lemma greedy_wrap_groups:
  assumes "\<And>g w. g \<in> set gs \<Longrightarrow> w \<in> set g \<Longrightarrow> cpl < int (length w) \<Longrightarrow> g = [w]"
    and "\<And>w. w \<in> set cur \<Longrightarrow> cpl < int (length w) \<Longrightarrow> cur = [w]"
  shows "\<exists>gs'. greedy_wrap cpl ws (map (join '' '') gs) cur = map (join '' '') gs'
           \<and> concat gs' = concat gs @ cur @ ws
           \<and> (\<forall>g\<in>set gs'. \<forall>w\<in>set g. cpl < int (length w) \<longrightarrow> g = [w])"
  using assms
proof (induction ws arbitrary: gs cur)
  case Nil
  show ?case
  proof (cases "cur = []")
    case True
    then show ?thesis using Nil by (intro exI [of _ gs]) auto
  next
    case False
    then show ?thesis using Nil by (intro exI [of _ "gs @ [cur]"]) auto
  qed
next
  case (Cons w ws)
  show ?case
  proof (cases "int (length (join '' '' cur)) + int (length w) + (if cur \<noteq> [] then 1 else 0) \<le> cpl")
    case True
    have fits: "\<not> cpl < int (length v)" if "v \<in> set (cur @ [w])" for v
    proof (cases "v \<in> set cur")
      case True
      then have "length v \<le> length (join '' '' cur)" by (rule join_length_ge)
      then show ?thesis using \<open>int (length (join '' '' cur)) + int (length w) + (if cur \<noteq> [] then 1 else 0) \<le> cpl\<close>
        by (auto split: if_splits)
    next
      case False
      then have "v = w" using that by simp
      then show ?thesis using True by (auto split: if_splits)
    qed
    have "\<exists>gs'. greedy_wrap cpl ws (map (join '' '') gs) (cur @ [w]) = map (join '' '') gs'
           \<and> concat gs' = concat gs @ (cur @ [w]) @ ws
           \<and> (\<forall>g\<in>set gs'. \<forall>w\<in>set g. cpl < int (length w) \<longrightarrow> g = [w])"
      using Cons.prems(1) fits by (intro Cons.IH) blast+
    then show ?thesis using True by simp
  next
    case False
    have "\<exists>gs'. greedy_wrap cpl ws (map (join '' '') (gs @ [cur])) [w] = map (join '' '') gs'
           \<and> concat gs' = concat (gs @ [cur]) @ [w] @ ws
           \<and> (\<forall>g\<in>set gs'. \<forall>w\<in>set g. cpl < int (length w) \<longrightarrow> g = [w])"
      using Cons.prems by (intro Cons.IH) auto
    then show ?thesis using False by simp
  qed
qed

lemma adjust_heading_find:
  "adjust_heading lpp h pn bs =
     (case List.find (\<lambda>b. 0 < h - b \<and> h - b < 3) bs of
        Some b \<Rightarrow> (b - 1, (b - 1) div lpp + 1)
      | None \<Rightarrow> (h, pn))"
  by (induction bs) auto

lemma lines_per_page_tall_page:
  "lines_per_page (set_page_size init_optimizer 612 936 ''point'') = 33"
  by (simp add: set_page_size_def init_optimizer_def calculate_content_area_def py_int_def)

lemma ceiling_ge_2:
  assumes "33 < (n::int)"
  shows "2 \<le> \<lceil>(of_int n :: real) / 33\<rceil>"
proof -
  have "(1::real) < of_int n / 33" using assms by simp
  then have "1 < \<lceil>(of_int n :: real) / 33\<rceil>" by (simp add: less_ceiling_iff)
  then show ?thesis by simp
qed

lemma record_matches_mla:
  "foldl (record_match ''mla'' ty p s)
     ([(''mla'', a), (''apa'', b), (''chicago'', c)], [(''mla'', x), (''apa'', y), (''chicago'', z)]) ms
   = ([(''mla'', a + int (length ms)), (''apa'', b), (''chicago'', c)],
      [(''mla'', x @ map (make_citation p ty s) ms), (''apa'', y), (''chicago'', z)])"
  by (induction ms arbitrary: a x) (simp_all add: record_match_def)

lemma record_matches_apa:
  "foldl (record_match ''apa'' ty p s)
     ([(''mla'', a), (''apa'', b), (''chicago'', c)], [(''mla'', x), (''apa'', y), (''chicago'', z)]) ms
   = ([(''mla'', a), (''apa'', b + int (length ms)), (''chicago'', c)],
      [(''mla'', x), (''apa'', y @ map (make_citation p ty s) ms), (''chicago'', z)])"
  by (induction ms arbitrary: b y) (simp_all add: record_match_def)

lemma record_matches_chicago:
  "foldl (record_match ''chicago'' ty p s)
     ([(''mla'', a), (''apa'', b), (''chicago'', c)], [(''mla'', x), (''apa'', y), (''chicago'', z)]) ms
   = ([(''mla'', a), (''apa'', b), (''chicago'', c + int (length ms))],
      [(''mla'', x), (''apa'', y), (''chicago'', z @ map (make_citation p ty s) ms)])"
  by (induction ms arbitrary: c z) (simp_all add: record_match_def)

lemma scan_sentence_closed:
  "scan_sentence
     ([(''mla'', a), (''apa'', b), (''chicago'', c)], [(''mla'', x), (''apa'', y), (''chicago'', z)]) s
   = ([(''mla'', a + 2 * int (length (finditer mla_pattern s))),
       (''apa'', b + int (length (finditer apa_in_text s)) + int (length (finditer apa_parenthetical s))),
       (''chicago'', c + int (length (finditer chicago_in_text s)) + int (length (finditer chicago_footnote s)))],
      [(''mla'', x @ found mla_pattern ''in_text'' s @ found mla_pattern ''parenthetical'' s),
       (''apa'', y @ found apa_in_text ''in_text'' s @ found apa_parenthetical ''parenthetical'' s),
       (''chicago'', z @ found chicago_in_text ''in_text'' s @ found chicago_footnote ''footnote'' s)])"
  by (simp add: scan_sentence_def citation_patterns_def scan_style_def scan_pattern_def
      record_matches_mla record_matches_apa record_matches_chicago found_def)

lemma scan_sentences_closed:
  "foldl scan_sentence
     ([(''mla'', a), (''apa'', b), (''chicago'', c)], [(''mla'', x), (''apa'', y), (''chicago'', z)]) ss
   = ([(''mla'', a + 2 * (\<Sum>s\<leftarrow>ss. int (length (finditer mla_pattern s)))),
       (''apa'', b + (\<Sum>s\<leftarrow>ss. int (length (finditer apa_in_text s)) + int (length (finditer apa_parenthetical s)))),
       (''chicago'', c + (\<Sum>s\<leftarrow>ss. int (length (finditer chicago_in_text s)) + int (length (finditer chicago_footnote s))))],
      [(''mla'', x @ concat (map (\<lambda>s. found mla_pattern ''in_text'' s @ found mla_pattern ''parenthetical'' s) ss)),
       (''apa'', y @ concat (map (\<lambda>s. found apa_in_text ''in_text'' s @ found apa_parenthetical ''parenthetical'' s) ss)),
       (''chicago'', z @ concat (map (\<lambda>s. found chicago_in_text ''in_text'' s @ found chicago_footnote ''footnote'' s) ss))])"
proof (induction ss arbitrary: a b c x y z)
  case Nil
  then show ?case by simp
next
  case (Cons s ss)
  show ?case
    by (simp only: foldl_Cons scan_sentence_closed Cons.IH) (simp add: algebra_simps)
qed

lemma dominant_style_total:
  "\<exists>d. dominant_style_of [(''mla'', a), (''apa'', b), (''chicago'', c)] = Inr d"
  by (simp add: dominant_style_of_def Let_def)

lemma extract_citations_closed:
  "\<exists>d. extract_citations tok text =
     Inr \<lparr>dominant_style = d,
          citations =
            [(''mla'', concat (map (\<lambda>s. found mla_pattern ''in_text'' s @ found mla_pattern ''parenthetical'' s) (tok text))),
             (''apa'', concat (map (\<lambda>s. found apa_in_text ''in_text'' s @ found apa_parenthetical ''parenthetical'' s) (tok text))),
             (''chicago'', concat (map (\<lambda>s. found chicago_in_text ''in_text'' s @ found chicago_footnote ''footnote'' s) (tok text)))],
          style_counts =
            [(''mla'', 2 * (\<Sum>s\<leftarrow>tok text. int (length (finditer mla_pattern s)))),
             (''apa'', (\<Sum>s\<leftarrow>tok text. int (length (finditer apa_in_text s)) + int (length (finditer apa_parenthetical s)))),
             (''chicago'', (\<Sum>s\<leftarrow>tok text. int (length (finditer chicago_in_text s)) + int (length (finditer chicago_footnote s))))]\<rparr>"
proof -
  obtain d where d: "dominant_style_of
      [(''mla'', 2 * (\<Sum>s\<leftarrow>tok text. int (length (finditer mla_pattern s)))),
       (''apa'', (\<Sum>s\<leftarrow>tok text. int (length (finditer apa_in_text s)) + int (length (finditer apa_parenthetical s)))),
       (''chicago'', (\<Sum>s\<leftarrow>tok text. int (length (finditer chicago_in_text s)) + int (length (finditer chicago_footnote s))))]
      = Inr d"
    using dominant_style_total by blast
  show ?thesis
    by (rule exI [of _ d]) (simp add: extract_citations_def Let_def scan_sentences_closed bind_err_def d)
qed

lemma finditer_mla_example:
  "finditer mla_pattern ''See (Smith 45).'' = [Match ''See (Smith 45).'' 4 14 [(Suc 0, (11, 13)), (0, (5, 10))]]"
  by code_simp


lemma finditer_other_examples:
  "finditer apa_in_text ''See (Smith 45).'' = []"
  "finditer apa_parenthetical ''See (Smith 45).'' = []"
  "finditer chicago_in_text ''See (Smith 45).'' = []"
  "finditer chicago_footnote ''See (Smith 45).'' = []"
  by code_simp+

lemma extract_example:
  "extract_citations one_sentence ''See (Smith 45).'' =
     Inr \<lparr>dominant_style = Some ''mla'',
          citations =
            [(''mla'',
              [[(''text'', Str ''(Smith 45)''), (''type'', Str ''in_text''),
                (''sentence'', Str ''See (Smith 45).''),
                (''groups'', Groups [Some ''Smith'', Some ''45''])],
               [(''text'', Str ''(Smith 45)''), (''type'', Str ''parenthetical''),
                (''sentence'', Str ''See (Smith 45).''),
                (''groups'', Groups [Some ''Smith'', Some ''45''])]]),
             (''apa'', []), (''chicago'', [])],
          style_counts = [(''mla'', 2), (''apa'', 0), (''chicago'', 0)]\<rparr>"
proof -
  have n: "ngroups mla_pattern = 2"
    by code_simp
  have g: "make_citation mla_pattern ty ''See (Smith 45).''
             (Match ''See (Smith 45).'' 4 14 [(Suc 0, (11, 13)), (0, (5, 10))])
           = [(''text'', Str ''(Smith 45)''), (''type'', Str ty),
              (''sentence'', Str ''See (Smith 45).''),
              (''groups'', Groups [Some ''Smith'', Some ''45''])]" for ty
    by (simp add: make_citation_def group0_def groups_def group_def substr_def n upt_rec)
  from extract_citations_closed [of one_sentence "''See (Smith 45).''"]
  obtain d where d: "extract_citations one_sentence ''See (Smith 45).'' =
     Inr \<lparr>dominant_style = d,
          citations =
            [(''mla'',
              [[(''text'', Str ''(Smith 45)''), (''type'', Str ''in_text''),
                (''sentence'', Str ''See (Smith 45).''),
                (''groups'', Groups [Some ''Smith'', Some ''45''])],
               [(''text'', Str ''(Smith 45)''), (''type'', Str ''parenthetical''),
                (''sentence'', Str ''See (Smith 45).''),
                (''groups'', Groups [Some ''Smith'', Some ''45''])]]),
             (''apa'', []), (''chicago'', [])],
          style_counts = [(''mla'', 2), (''apa'', 0), (''chicago'', 0)]\<rparr>"
    by (auto simp: one_sentence_def found_def finditer_mla_example finditer_other_examples g)
  then have "dominant_style_of [(''mla'', 2), (''apa'', 0), (''chicago'', 0)] = Inr d"
    by (auto simp: extract_citations_def Let_def bind_err_def split: sum.splits)
  then have "d = Some ''mla''"
    by (simp add: dominant_style_of_def Let_def)
  with d show ?thesis by simp
qed

lemma in_found:
  "c \<in> set (found p ty s) \<Longrightarrow>
   \<exists>m. m \<in> set (finditer p s) \<and>
       c = [(''text'', Str (group0 m)), (''type'', Str ty), (''sentence'', Str s),
            (''groups'', Groups (map (group m) [0..<ngroups p]))]"
  by (auto simp: found_def make_citation_def groups_def)

lemma parse_entry_raw:
  "map_of (parse_entry t) ''raw'' = Some (Some t)"
  by (auto simp: parse_entry_def Let_def map_add_def split: option.splits)

lemma identify_none:
  "falsy (find_bib_section bib_titles text) \<Longrightarrow> falsy (find_bib_tail text) \<Longrightarrow>
   identify_bibliography text = []"
  by (auto simp: identify_bibliography_def locate_bibliography_def falsy_def truthy_def Let_def
      split: option.splits)

lemma identify_entries:
  assumes "e \<in> set (identify_bibliography text)"
  shows "\<exists>bib raw. locate_bibliography text = Some bib \<and> bib \<noteq> []
          \<and> raw \<in> set (map strip (re_split entry_split_pattern bib))
          \<and> raw \<noteq> [] \<and> e = parse_entry raw \<and> map_of e ''raw'' = Some (Some raw)"
proof -
  from assms obtain bib where b: "locate_bibliography text = Some bib" "bib \<noteq> []"
    and "e \<in> set (map parse_entry
                 (filter (\<lambda>entry_text. entry_text \<noteq> [])
                    (map strip (re_split entry_split_pattern bib))))"
    by (cases "locate_bibliography text") (auto simp: identify_bibliography_def split: if_splits)
  then obtain raw where r: "raw \<in> set (map strip (re_split entry_split_pattern bib))"
    "raw \<noteq> []" "e = parse_entry raw"
    by auto
  with b show ?thesis using parse_entry_raw [of raw] by blast
qed

lemma bib_example:
  "identify_bibliography
     (''References'' @ [newline] @ ''Smith, J. Book. 2020.'' @ [newline] @ ''Doe, A. Paper. 2019.'')
   = [[(''author'', Some ''Smith''), (''year'', Some ''2020''), (''title'', Some ''J. Book''),
       (''raw'', Some ''Smith, J. Book. 2020.'')],
      [(''author'', Some ''Doe''), (''year'', Some ''2019''), (''title'', Some ''A. Paper''),
       (''raw'', Some ''Doe, A. Paper. 2019.'')]]"
  by code_simp

lemma no_bib_example:
  "falsy (find_bib_section bib_titles ''No list here.'')"
  "falsy (find_bib_tail ''No list here.'')"
  by code_simp+


section \<open>The style vote\<close>

text \<open>
  C1. For all three counts, the vote at the end of \<open>extract_citations\<close> returns the style
  with the largest count, the first of \<open>mla\<close>, \<open>apa\<close>, \<open>chicago\<close> that reaches it, and
  returns \<open>None\<close>, not an error, when the largest count is zero. The counts 2, 2, 0 give
  \<open>mla\<close>.
\<close>

theorem style_vote:
  "dominant_style_of [(''mla'', a), (''apa'', b), (''chicago'', c)] =
     Inr (if max a (max b c) = 0 then None
          else if a = max a (max b c) then Some ''mla''
          else if b = max a (max b c) then Some ''apa''
          else Some ''chicago'')
   \<and> dominant_style_of [(''mla'', 2), (''apa'', 2), (''chicago'', 0)] = Inr (Some ''mla'')"
  by (simp add: dominant_style_of_def Let_def max_def)

section \<open>Converting one citation\<close>

text \<open>
  C2, as the source computes it. An MLA citation with the groups \<open>Smith\<close> and \<open>45\<close>
  converts to APA as \<open>(Smith, n.d., p. 45)\<close>: the year is the literal \<open>n.d.\<close>, and the
  page, which MLA does carry, is kept.
\<close>

theorem mla_to_apa_keeps_page:
  "convert_citation
     [(''text'', Str t), (''type'', Str ty), (''sentence'', Str s),
      (''groups'', Groups [Some ''Smith'', Some ''45''])] ''mla'' ''apa''
   = Inr (Str ''(Smith, n.d., p. 45)'')"
  by (simp add: convert_citation_def extract_fields_def render_def bind_err_def getitem_def
      index_def truthy_def fstr_def)

text \<open>The result is not the string \<open>(Smith, n.d.)\<close>.\<close>

theorem mla_to_apa_counterexample:
  "convert_citation
     [(''text'', Str ''(Smith 45)''), (''type'', Str ''parenthetical''),
      (''sentence'', Str ''See (Smith 45).''),
      (''groups'', Groups [Some ''Smith'', Some ''45''])] ''mla'' ''apa''
   \<noteq> Inr (Str ''(Smith, n.d.)'')"
  by (simp add: convert_citation_def extract_fields_def render_def bind_err_def getitem_def
      index_def truthy_def fstr_def)

text \<open>
  C3, as the source computes it. There is no invalid-style error. When \<open>to_style\<close> is none
  of the three styles, \<open>convert_citation\<close> falls through to its last line and returns
  \<open>citation['text']\<close> unchanged, provided the first half raised nothing; it raises nothing
  when \<open>from_style\<close> is none of the three styles either.
\<close>

theorem unknown_target_returns_text:
  assumes "to_style \<notin> {''mla'', ''apa'', ''chicago''}"
    and "map_of citation ''text'' = Some t"
    and "from_style \<notin> {''mla'', ''apa'', ''chicago''} \<or> extract_fields citation from_style = Inr vars"
  shows "convert_citation citation from_style to_style = Inr t"
proof -
  have r: "render citation to_style v = Inr t" for v
    using assms(1,2) by (simp add: render_unknown_target getitem_def)
  from assms(3) obtain v where "extract_fields citation from_style = Inr v"
    by (auto simp: extract_fields_def)
  then show ?thesis
    by (simp add: convert_citation_def bind_err_def r)
qed

theorem unknown_target_returns_text_witness:
  "convert_citation
     [(''text'', Str ''(Smith 45)''), (''type'', Str ''parenthetical''),
      (''sentence'', Str ''See (Smith 45).''),
      (''groups'', Groups [Some ''Smith'', Some ''45''])] ''ieee'' ''harvard''
   = Inr (Str ''(Smith 45)'')"
  using unknown_target_returns_text [of "''harvard''"
     "[(''text'', Str ''(Smith 45)''), (''type'', Str ''parenthetical''),
       (''sentence'', Str ''See (Smith 45).''),
       (''groups'', Groups [Some ''Smith'', Some ''45''])]" "Str ''(Smith 45)''" "''ieee''" None]
  by simp

text \<open>An MLA citation converted to the unknown style \<open>harvard\<close> comes back as its own
  text, with no error.\<close>

theorem unknown_target_counterexample:
  "convert_citation
     [(''text'', Str ''(Smith 45)''), (''type'', Str ''parenthetical''),
      (''sentence'', Str ''See (Smith 45).''),
      (''groups'', Groups [Some ''Smith'', Some ''45''])] ''mla'' ''harvard''
   = Inr (Str ''(Smith 45)'')"
  by (simp add: convert_citation_def extract_fields_def render_def bind_err_def getitem_def
      index_def truthy_def fstr_def)

text \<open>An unknown \<open>from_style\<close> with a known \<open>to_style\<close> reads a local that no branch
  bound.\<close>

lemma unknown_source_unbound_local:
  "convert_citation
     [(''text'', Str ''(Smith 45)''), (''type'', Str ''parenthetical''),
      (''sentence'', Str ''See (Smith 45).''),
      (''groups'', Groups [Some ''Smith'', Some ''45''])] ''harvard'' ''apa''
   = Inl UnboundLocalError"
  by (simp add: convert_citation_def extract_fields_def render_def bind_err_def getitem_def
      index_def truthy_def fstr_def)

section \<open>Margins for a target line length\<close>

text \<open>
  C5, as the source computes it. \<open>calculate_optimal_margins\<close> never fails. For every
  target line length, also one whose solved margin \<open>x\<close> is negative, it stores
  \<open>left = right = x\<close>, keeps \<open>top\<close> and \<open>bottom\<close>, and recomputes the content metrics from
  the new margins.
\<close>

theorem optimal_margins_never_fail:
  "calculate_optimal_margins self n =
     (let x = (page_width self - of_int n * (default_font_size self * (6 / 10))) / 2;
          m = (margins self)\<lparr>right_m := x, left_m := x\<rparr>
      in Inr (m, calculate_content_area (self\<lparr>margins := m\<rparr>)))"
  by (simp add: calculate_optimal_margins_def set_margins_def set_side_def convert_def
      bind_err_def solve_margin_def Let_def margins_calculate_content_area)

text \<open>A target of 100 characters on the default page solves to \<open>x = -54\<close>; the call
  returns, and the stored margins and metrics are the new ones.\<close>

theorem negative_margin_counterexample:
  "calculate_optimal_margins init_optimizer 100 =
     Inr (\<lparr>top_m = 72, right_m = - 54, bottom_m = 72, left_m = - 54\<rparr>,
          \<lparr>page_width = 612, page_height = 792,
           margins = \<lparr>top_m = 72, right_m = - 54, bottom_m = 72, left_m = - 54\<rparr>,
           content_width = 720, content_height = 648, default_font_size = 12,
           default_line_height = 24, chars_per_line = 100, lines_per_page = 27\<rparr>)"
  by (simp add: calculate_optimal_margins_def set_margins_def set_side_def convert_def
      bind_err_def solve_margin_def Let_def init_optimizer_def calculate_content_area_def py_int_def)


section \<open>Line breaking\<close>

text \<open>
  C7. For every text and every \<open>cpl\<close>, positive or not, the loop of
  \<open>calculate_line_breaks\<close> is the greedy word wrap of the specification: its counter
  \<open>current_length\<close> is the length of the current line, and the counter is positive
  exactly when the line has a word. The words of the text are dealt out to the lines
  whole and in order, and a word longer than \<open>cpl\<close> is the only word of its line.
  \<open>aaaa bbbb cccc\<close> at 9 characters per line gives \<open>aaaa bbbb\<close> and \<open>cccc\<close>; a font
  size of 80 on the default page gives 9 characters per line.
\<close>

theorem line_breaker_greedy:
  "break_lines cpl text = greedy_wrap cpl (py_split text) [] []
   \<and> (\<exists>groups. break_lines cpl text = map (join '' '') groups
         \<and> concat groups = py_split text
         \<and> (\<forall>g\<in>set groups. \<forall>w\<in>set g. cpl < int (length w) \<longrightarrow> g = [w]))
   \<and> break_lines 9 ''aaaa bbbb cccc'' = [''aaaa bbbb'', ''cccc'']
   \<and> calculate_line_breaks init_optimizer ''aaaa bbbb cccc'' (Some 80) = Inr [''aaaa bbbb'', ''cccc'']"
proof -
  have a: "break_lines cpl text = greedy_wrap cpl (py_split text) [] []"
    by (rule break_lines_greedy_wrap)
  have "\<exists>gs'. greedy_wrap cpl (py_split text) (map (join '' '') []) [] = map (join '' '') gs'
           \<and> concat gs' = concat [] @ [] @ py_split text
           \<and> (\<forall>g\<in>set gs'. \<forall>w\<in>set g. cpl < int (length w) \<longrightarrow> g = [w])"
    by (rule greedy_wrap_groups) auto
  then have b: "\<exists>groups. break_lines cpl text = map (join '' '') groups
         \<and> concat groups = py_split text
         \<and> (\<forall>g\<in>set groups. \<forall>w\<in>set g. cpl < int (length w) \<longrightarrow> g = [w])"
    by (simp add: a)
  have c: "break_lines 9 ''aaaa bbbb cccc'' = [''aaaa bbbb'', ''cccc'']"
    by (simp add: break_lines_def py_split_def isspace_def)
  have d: "calculate_line_breaks init_optimizer ''aaaa bbbb cccc'' (Some 80) = Inr [''aaaa bbbb'', ''cccc'']"
    by (simp add: calculate_line_breaks_def init_optimizer_def calculate_content_area_def py_int_def c)
  show ?thesis using a b c d by blast
qed


text \<open>A first word longer than \<open>cpl\<close> flushes the still empty current line: an empty
  first line comes before the word's own line.\<close>

lemma overlong_first_word:
  "break_lines 5 ''aaaaaaaaaa bb'' = ['''', ''aaaaaaaaaa'', ''bb'']"
  by (simp add: break_lines_def py_split_def isspace_def)

theorem line_breaker_greedy_witness:
  "break_lines 5 ''aaaaaaaaaa bb'' = greedy_wrap 5 (py_split ''aaaaaaaaaa bb'') [] []
   \<and> break_lines 5 ''aaaaaaaaaa bb'' = map (join '' '') [[], [''aaaaaaaaaa''], [''bb'']]
   \<and> concat [[], [''aaaaaaaaaa''], [''bb'']] = py_split ''aaaaaaaaaa bb''
   \<and> (5 :: int) < int (length ''aaaaaaaaaa'')"
  using line_breaker_greedy [of 5 "''aaaaaaaaaa bb''"]
  by (simp add: break_lines_def py_split_def isspace_def)


section \<open>Heading placement\<close>

text \<open>
  C8. For a positive \<open>lines_per_page\<close>, every heading that is one or two lines after a
  page break \<open>i * lines_per_page\<close>, \<open>1 \<le> i < ceil(text_length / lines_per_page)\<close>, moves
  to the line before the first such break, and its page is computed from the new line;
  every other heading keeps its line, with page \<open>position div lines_per_page + 1\<close>.
  With 33 lines per page and more than 33 lines, the heading at line 34 moves to line
  32 on page 1.
\<close>

theorem heading_placement:
  assumes "0 < lines_per_page self"
  shows "optimize_heading_placement self hs n =
     Inr (map (\<lambda>h. case List.find (\<lambda>b. 0 < h - b \<and> h - b < 3)
                       (map (\<lambda>i. i * lines_per_page self)
                          [1..\<lceil>(of_int n :: real) / of_int (lines_per_page self)\<rceil> - 1]) of
                     Some b \<Rightarrow> [(''position'', b - 1), (''page'', (b - 1) div lines_per_page self + 1)]
                   | None \<Rightarrow> [(''position'', h), (''page'', h div lines_per_page self + 1)]) hs)
    \<and> (lines_per_page self = 33 \<and> 33 < n \<longrightarrow>
         optimize_heading_placement self [34] n = Inr [[(''position'', 32), (''page'', 1)]])"
proof -
  have gen: "optimize_heading_placement self hs n =
     Inr (map (\<lambda>h. case List.find (\<lambda>b. 0 < h - b \<and> h - b < 3)
                       (map (\<lambda>i. i * lines_per_page self)
                          [1..\<lceil>(of_int n :: real) / of_int (lines_per_page self)\<rceil> - 1]) of
                     Some b \<Rightarrow> [(''position'', b - 1), (''page'', (b - 1) div lines_per_page self + 1)]
                   | None \<Rightarrow> [(''position'', h), (''page'', h div lines_per_page self + 1)]) hs)" for hs
    using assms
    by (simp add: optimize_heading_placement_def calculate_pagination_def bind_err_def
        place_heading_def adjust_heading_find split: option.split)
  have ex: "optimize_heading_placement self [34] n = Inr [[(''position'', 32), (''page'', 1)]]"
    if l: "lines_per_page self = 33" and n: "33 < n"
  proof -
    have "1 \<le> \<lceil>(of_int n :: real) / 33\<rceil> - 1" using ceiling_ge_2 [OF n] by simp
    then have "[1..\<lceil>(of_int n :: real) / 33\<rceil> - 1] = 1 # [2..\<lceil>(of_int n :: real) / 33\<rceil> - 1]"
      by (simp add: upto_rec1)
    then show ?thesis by (simp add: gen [of "[34]"] l)
  qed
  show ?thesis using gen ex by blast
qed

theorem heading_placement_witness:
  "0 < lines_per_page (set_page_size init_optimizer 612 936 ''point'')
   \<and> optimize_heading_placement (set_page_size init_optimizer 612 936 ''point'') [34, 36, 67] 100
       = Inr [[(''position'', 32), (''page'', 1)], [(''position'', 36), (''page'', 2)],
              [(''position'', 65), (''page'', 2)]]
   \<and> optimize_heading_placement (set_page_size init_optimizer 612 936 ''point'') [34] 100
       = Inr [[(''position'', 32), (''page'', 1)]]"
  using heading_placement [of "set_page_size init_optimizer 612 936 ''point''" "[34, 36, 67]" 100]
  by (simp add: lines_per_page_tall_page upto_rec1)



section \<open>Detected citations\<close>

text \<open>
  C10. Both kinds under \<open>mla\<close> in the catalogue are the same pattern. For every sentence
  splitter and every text, \<open>extract_citations\<close> returns; the \<open>mla\<close> count is twice the
  number of matches of that pattern in the sentences, an even number; and the \<open>mla\<close>
  citations are, sentence by sentence, one dict for each match with \<open>type\<close>
  \<open>in_text\<close>, then one dict for each match with \<open>type\<close> \<open>parenthetical\<close>, each with
  the matched text, the sentence and the two capture groups of its match. In
  \<open>See (Smith 45).\<close> the one match is recorded as these two dicts, and the count is 2.
\<close>

theorem mla_matches_counted_twice:
  "\<exists>r. extract_citations tok text = Inr r
     \<and> map_of (style_counts r) ''mla'' = Some (2 * (\<Sum>s\<leftarrow>tok text. int (length (finditer mla_pattern s))))
     \<and> even (2 * (\<Sum>s\<leftarrow>tok text. int (length (finditer mla_pattern s))))
     \<and> map_of (citations r) ''mla'' =
         Some (concat (map (\<lambda>s.
                 map (\<lambda>m. [(''text'', Str (group0 m)), (''type'', Str ''in_text''),
                           (''sentence'', Str s),
                           (''groups'', Groups (map (group m) [0..<ngroups mla_pattern]))])
                   (finditer mla_pattern s)
               @ map (\<lambda>m. [(''text'', Str (group0 m)), (''type'', Str ''parenthetical''),
                             (''sentence'', Str s),
                             (''groups'', Groups (map (group m) [0..<ngroups mla_pattern]))])
                   (finditer mla_pattern s))
                 (tok text)))
     \<and> map_of citation_patterns ''mla'' = Some [(''in_text'', mla_pattern), (''parenthetical'', mla_pattern)]
     \<and> extract_citations one_sentence ''See (Smith 45).'' =
         Inr \<lparr>dominant_style = Some ''mla'',
              citations =
                [(''mla'',
                  [[(''text'', Str ''(Smith 45)''), (''type'', Str ''in_text''),
                    (''sentence'', Str ''See (Smith 45).''),
                    (''groups'', Groups [Some ''Smith'', Some ''45''])],
                   [(''text'', Str ''(Smith 45)''), (''type'', Str ''parenthetical''),
                    (''sentence'', Str ''See (Smith 45).''),
                    (''groups'', Groups [Some ''Smith'', Some ''45''])]]),
                 (''apa'', []), (''chicago'', [])],
              style_counts = [(''mla'', 2), (''apa'', 0), (''chicago'', 0)]\<rparr>"
proof -
  have mk: "make_citation p ty s =
      (\<lambda>m. [(''text'', Str (group0 m)), (''type'', Str ty), (''sentence'', Str s),
            (''groups'', Groups (map (group m) [0..<ngroups p]))])" for p ty s
    by (rule ext) (simp add: make_citation_def groups_def)
  from extract_citations_closed [of tok "text"] obtain d r where
    "extract_citations tok text = Inr r"
    "r = \<lparr>dominant_style = d,
          citations =
            [(''mla'', concat (map (\<lambda>s. found mla_pattern ''in_text'' s @ found mla_pattern ''parenthetical'' s) (tok text))),
             (''apa'', concat (map (\<lambda>s. found apa_in_text ''in_text'' s @ found apa_parenthetical ''parenthetical'' s) (tok text))),
             (''chicago'', concat (map (\<lambda>s. found chicago_in_text ''in_text'' s @ found chicago_footnote ''footnote'' s) (tok text)))],
          style_counts =
            [(''mla'', 2 * (\<Sum>s\<leftarrow>tok text. int (length (finditer mla_pattern s)))),
             (''apa'', (\<Sum>s\<leftarrow>tok text. int (length (finditer apa_in_text s)) + int (length (finditer apa_parenthetical s)))),
             (''chicago'', (\<Sum>s\<leftarrow>tok text. int (length (finditer chicago_in_text s)) + int (length (finditer chicago_footnote s))))]\<rparr>"
    by blast
  then show ?thesis
    by (intro exI [of _ r])
       (simp add: found_def mk citation_patterns_def extract_example)
qed


text \<open>
  C4, as the source computes it. Every citation dict that \<open>extract_citations\<close> emits has
  exactly the keys \<open>text\<close>, \<open>type\<close>, \<open>sentence\<close> and \<open>groups\<close>, in this order: the
  matched text, the kind, the sentence, and the capture groups of the match in the
  order they are declared, for one match of one catalogue pattern of its style in one
  sentence. It has no \<open>position\<close> key: no offset is stored, neither in the text nor in
  the sentence.
\<close>

theorem citations_have_four_keys:
  assumes "extract_citations tok text = Inr r"
    and "(style, cs) \<in> set (citations r)"
    and "c \<in> set cs"
  shows "map fst c = [''text'', ''type'', ''sentence'', ''groups'']
     \<and> map_of c ''position'' = None
     \<and> (\<exists>sentence kinds type_name pattern m.
           sentence \<in> set (tok text)
         \<and> map_of citation_patterns style = Some kinds
         \<and> (type_name, pattern) \<in> set kinds
         \<and> m \<in> set (finditer pattern sentence)
         \<and> c = [(''text'', Str (group0 m)), (''type'', Str type_name),
                (''sentence'', Str sentence),
                (''groups'', Groups (map (group m) [0..<ngroups pattern]))])"
proof -
  have shape: "\<exists>sentence kinds type_name pattern m.
           sentence \<in> set (tok text)
         \<and> map_of citation_patterns style = Some kinds
         \<and> (type_name, pattern) \<in> set kinds
         \<and> m \<in> set (finditer pattern sentence)
         \<and> c = [(''text'', Str (group0 m)), (''type'', Str type_name),
                (''sentence'', Str sentence),
                (''groups'', Groups (map (group m) [0..<ngroups pattern]))]"
  proof -
    from extract_citations_closed [of tok "text"] assms(1)
    have cit: "citations r =
            [(''mla'', concat (map (\<lambda>s. found mla_pattern ''in_text'' s @ found mla_pattern ''parenthetical'' s) (tok text))),
             (''apa'', concat (map (\<lambda>s. found apa_in_text ''in_text'' s @ found apa_parenthetical ''parenthetical'' s) (tok text))),
             (''chicago'', concat (map (\<lambda>s. found chicago_in_text ''in_text'' s @ found chicago_footnote ''footnote'' s) (tok text)))]"
      by auto
    from assms(2) cit consider
        (mla) "style = ''mla''" "cs = concat (map (\<lambda>s. found mla_pattern ''in_text'' s @ found mla_pattern ''parenthetical'' s) (tok text))"
      | (apa) "style = ''apa''" "cs = concat (map (\<lambda>s. found apa_in_text ''in_text'' s @ found apa_parenthetical ''parenthetical'' s) (tok text))"
      | (chicago) "style = ''chicago''" "cs = concat (map (\<lambda>s. found chicago_in_text ''in_text'' s @ found chicago_footnote ''footnote'' s) (tok text))"
      by auto
    then show ?thesis
    proof cases
      case mla
      with assms(3) obtain s where s: "s \<in> set (tok text)"
        and "c \<in> set (found mla_pattern ''in_text'' s) \<or> c \<in> set (found mla_pattern ''parenthetical'' s)"
        by auto
      then obtain ty m where "ty = ''in_text'' \<or> ty = ''parenthetical''" "m \<in> set (finditer mla_pattern s)"
        "c = [(''text'', Str (group0 m)), (''type'', Str ty), (''sentence'', Str s),
            (''groups'', Groups (map (group m) [0..<ngroups mla_pattern]))]"
        by (auto dest!: in_found)
      with s mla(1) show ?thesis
        by (auto simp: citation_patterns_def)
    next
      case apa
      with assms(3) obtain s where s: "s \<in> set (tok text)"
        and "c \<in> set (found apa_in_text ''in_text'' s) \<or> c \<in> set (found apa_parenthetical ''parenthetical'' s)"
        by auto
      then obtain ty p m where "(ty, p) = (''in_text'', apa_in_text) \<or> (ty, p) = (''parenthetical'', apa_parenthetical)"
        "m \<in> set (finditer p s)"
        "c = [(''text'', Str (group0 m)), (''type'', Str ty), (''sentence'', Str s),
            (''groups'', Groups (map (group m) [0..<ngroups p]))]"
        by (auto dest!: in_found)
      with s apa(1) show ?thesis
        by (auto simp: citation_patterns_def)
    next
      case chicago
      with assms(3) obtain s where s: "s \<in> set (tok text)"
        and "c \<in> set (found chicago_in_text ''in_text'' s) \<or> c \<in> set (found chicago_footnote ''footnote'' s)"
        by auto
      then obtain ty p m where "(ty, p) = (''in_text'', chicago_in_text) \<or> (ty, p) = (''footnote'', chicago_footnote)"
        "m \<in> set (finditer p s)"
        "c = [(''text'', Str (group0 m)), (''type'', Str ty), (''sentence'', Str s),
            (''groups'', Groups (map (group m) [0..<ngroups p]))]"
        by (auto dest!: in_found)
      with s chicago(1) show ?thesis
        by (auto simp: citation_patterns_def)
    qed
  qed
  then have "map fst c = [''text'', ''type'', ''sentence'', ''groups'']" and "map_of c ''position'' = None"
    by auto
  with shape show ?thesis by blast
qed


theorem citations_have_four_keys_witness:
  "extract_citations one_sentence ''See (Smith 45).'' =
     Inr \<lparr>dominant_style = Some ''mla'',
          citations =
            [(''mla'',
              [[(''text'', Str ''(Smith 45)''), (''type'', Str ''in_text''),
                (''sentence'', Str ''See (Smith 45).''),
                (''groups'', Groups [Some ''Smith'', Some ''45''])],
               [(''text'', Str ''(Smith 45)''), (''type'', Str ''parenthetical''),
                (''sentence'', Str ''See (Smith 45).''),
                (''groups'', Groups [Some ''Smith'', Some ''45''])]]),
             (''apa'', []), (''chicago'', [])],
          style_counts = [(''mla'', 2), (''apa'', 0), (''chicago'', 0)]\<rparr>
   \<and> map fst [(''text'', Str ''(Smith 45)''), (''type'', Str ''parenthetical''),
               (''sentence'', Str ''See (Smith 45).''),
               (''groups'', Groups [Some ''Smith'', Some ''45''])]
       = [''text'', ''type'', ''sentence'', ''groups'']
   \<and> map_of [(''text'', Str ''(Smith 45)''), (''type'', Str ''parenthetical''),
              (''sentence'', Str ''See (Smith 45).''),
              (''groups'', Groups [Some ''Smith'', Some ''45''])] ''position'' = None"
  using citations_have_four_keys [OF extract_example,
      of "''mla''"
         "[[(''text'', Str ''(Smith 45)''), (''type'', Str ''in_text''),
            (''sentence'', Str ''See (Smith 45).''),
            (''groups'', Groups [Some ''Smith'', Some ''45''])],
           [(''text'', Str ''(Smith 45)''), (''type'', Str ''parenthetical''),
            (''sentence'', Str ''See (Smith 45).''),
            (''groups'', Groups [Some ''Smith'', Some ''45''])]]"
         "[(''text'', Str ''(Smith 45)''), (''type'', Str ''parenthetical''),
           (''sentence'', Str ''See (Smith 45).''),
           (''groups'', Groups [Some ''Smith'', Some ''45''])]"]
    extract_example
  by simp

text \<open>In \<open>See (Smith 45).\<close> the MLA match starts at offset 4; neither dict emitted for it
  has a \<open>position\<close> entry.\<close>

theorem citation_without_position:
  "map m_start (finditer mla_pattern ''See (Smith 45).'') = [4]
   \<and> extract_citations one_sentence ''See (Smith 45).'' =
     Inr \<lparr>dominant_style = Some ''mla'',
          citations =
            [(''mla'',
              [[(''text'', Str ''(Smith 45)''), (''type'', Str ''in_text''),
                (''sentence'', Str ''See (Smith 45).''),
                (''groups'', Groups [Some ''Smith'', Some ''45''])],
               [(''text'', Str ''(Smith 45)''), (''type'', Str ''parenthetical''),
                (''sentence'', Str ''See (Smith 45).''),
                (''groups'', Groups [Some ''Smith'', Some ''45''])]]),
             (''apa'', []), (''chicago'', [])],
          style_counts = [(''mla'', 2), (''apa'', 0), (''chicago'', 0)]\<rparr>"
  by (simp add: finditer_mla_example extract_example)


section \<open>The solved margin\<close>

text \<open>
  C6. With floats read as exact reals and \<open>solve\<close> as the root of its linear equation:
  for every optimizer and target line length, \<open>calculate_optimal_margins\<close> returns
  margins with \<open>left = right = x\<close>, where
  \<open>page_width - 2 * x = target_line_length * (default_font_size * 0.6)\<close>, and stores
  them; \<open>top\<close> and \<open>bottom\<close> stay. On the default page, whose content is 468 points
  wide, a target of 66 characters gives \<open>left = right = 68.4\<close>.
\<close>

theorem optimal_margins_solve:
  "(\<exists>m self'. calculate_optimal_margins self n = Inr (m, self')
       \<and> left_m m = right_m m
       \<and> page_width self - 2 * left_m m = of_int n * (default_font_size self * (6 / 10))
       \<and> top_m m = top_m (margins self) \<and> bottom_m m = bottom_m (margins self)
       \<and> margins self' = m)
   \<and> set_page_size init_optimizer 612 792 ''point'' = init_optimizer
   \<and> content_width init_optimizer = 468
   \<and> default_font_size init_optimizer = 12
   \<and> calculate_optimal_margins init_optimizer 66 =
       Inr (\<lparr>top_m = 72, right_m = 68.4, bottom_m = 72, left_m = 68.4\<rparr>,
            \<lparr>page_width = 612, page_height = 792,
             margins = \<lparr>top_m = 72, right_m = 68.4, bottom_m = 72, left_m = 68.4\<rparr>,
             content_width = 475.2, content_height = 648, default_font_size = 12,
             default_line_height = 24, chars_per_line = 66, lines_per_page = 27\<rparr>)"
proof -
  have a: "\<exists>m self'. calculate_optimal_margins self n = Inr (m, self')
       \<and> left_m m = right_m m
       \<and> page_width self - 2 * left_m m = of_int n * (default_font_size self * (6 / 10))
       \<and> top_m m = top_m (margins self) \<and> bottom_m m = bottom_m (margins self)
       \<and> margins self' = m"
    by (simp add: calculate_optimal_margins_def set_margins_def set_side_def convert_def
        bind_err_def solve_margin_def Let_def margins_calculate_content_area field_simps)
  have b: "set_page_size init_optimizer 612 792 ''point'' = init_optimizer"
    by (simp add: set_page_size_def init_optimizer_def calculate_content_area_def py_int_def)
  have c: "content_width init_optimizer = 468" "default_font_size init_optimizer = 12"
    by (simp_all add: init_optimizer_def calculate_content_area_def py_int_def)
  have d: "calculate_optimal_margins init_optimizer 66 =
       Inr (\<lparr>top_m = 72, right_m = 68.4, bottom_m = 72, left_m = 68.4\<rparr>,
            \<lparr>page_width = 612, page_height = 792,
             margins = \<lparr>top_m = 72, right_m = 68.4, bottom_m = 72, left_m = 68.4\<rparr>,
             content_width = 475.2, content_height = 648, default_font_size = 12,
             default_line_height = 24, chars_per_line = 66, lines_per_page = 27\<rparr>)"
    by (simp add: calculate_optimal_margins_def set_margins_def set_side_def convert_def
        bind_err_def solve_margin_def Let_def init_optimizer_def calculate_content_area_def py_int_def)
  show ?thesis using a b c d by blast
qed

section \<open>The bibliography\<close>

text \<open>
  C9. For every text: when the titled search gives nothing (no title found, or an empty
  section) and the last three paragraphs give nothing either, \<open>identify_bibliography\<close>
  returns the empty list; every entry it returns stores under \<open>raw\<close> its whole entry
  text, which is a stripped, non-empty piece of the located block. A \<open>References\<close>
  line followed by two author-led lines gives exactly two entries.
\<close>

theorem bibliography_entries:
  "(falsy (find_bib_section bib_titles text) \<and> falsy (find_bib_tail text)
      \<longrightarrow> identify_bibliography text = [])
   \<and> (\<forall>e\<in>set (identify_bibliography text).
        \<exists>bib raw. locate_bibliography text = Some bib
          \<and> raw \<in> set (map strip (re_split entry_split_pattern bib))
          \<and> raw \<noteq> [] \<and> map_of e ''raw'' = Some (Some raw))
   \<and> identify_bibliography
        (''References'' @ [newline] @ ''Smith, J. Book. 2020.'' @ [newline] @ ''Doe, A. Paper. 2019.'')
      = [[(''author'', Some ''Smith''), (''year'', Some ''2020''), (''title'', Some ''J. Book''),
          (''raw'', Some ''Smith, J. Book. 2020.'')],
         [(''author'', Some ''Doe''), (''year'', Some ''2019''), (''title'', Some ''A. Paper''),
          (''raw'', Some ''Doe, A. Paper. 2019.'')]]"
proof -
  have a: "falsy (find_bib_section bib_titles text) \<and> falsy (find_bib_tail text)
      \<longrightarrow> identify_bibliography text = []"
    using identify_none by blast
  have b: "\<forall>e\<in>set (identify_bibliography text).
        \<exists>bib raw. locate_bibliography text = Some bib
          \<and> raw \<in> set (map strip (re_split entry_split_pattern bib))
          \<and> raw \<noteq> [] \<and> map_of e ''raw'' = Some (Some raw)"
    using identify_entries by blast
  show ?thesis using a b bib_example by blast
qed

theorem bibliography_entries_witness:
  "falsy (find_bib_section bib_titles ''No list here.'')
   \<and> falsy (find_bib_tail ''No list here.'')
   \<and> identify_bibliography ''No list here.'' = []
   \<and> length (identify_bibliography
        (''References'' @ [newline] @ ''Smith, J. Book. 2020.'' @ [newline] @ ''Doe, A. Paper. 2019.'')) = 2
   \<and> map_of [(''author'', Some ''Smith''), (''year'', Some ''2020''), (''title'', Some ''J. Book''),
              (''raw'', Some ''Smith, J. Book. 2020.'')] ''raw'' = Some (Some ''Smith, J. Book. 2020.'')"
  using bibliography_entries [of "''No list here.''"] no_bib_example
  by simp

end
